theory Spec2Isabelle
  imports Main
begin

section \<open>Values, errors and string helpers\<close>

text \<open>
  Cell values held by a relation. The development needs integers, text and the
  null value; floating point cells and the type inference that pandas performs
  on a round trip are outside the model.
\<close>

datatype val = VInt int | VStr string | VNull

text \<open>
  Every \<open>raise\<close> of \<open>database.py\<close> is a constructor here, named after the error
  kinds of the specification. In the Python source \<open>InvalidPolicyError\<close>,
  \<open>AlreadyExistsError\<close>, \<open>MultiStatementError\<close>, \<open>ColumnExistsError\<close> and
  \<open>UnboundParameterError\<close> are all \<open>ValueError\<close> with different messages.
  \<open>EngineError\<close> is an exception reported by the embedded engine,
  \<open>PandasError\<close> one raised by the data-frame library, \<open>FuncRaised\<close> one raised
  by the user function that is mapped over the rows.
\<close>

datatype error =
    InvalidPolicyError
  | AlreadyExistsError string
  | NotFoundError string
  | UnsupportedFormatError string
  | InvalidSourceTypeError
  | MultiStatementError
  | ColumnExistsError string
  | UnboundParameterError string string
  | TypeError string
  | EngineError string
  | PandasError string
  | FuncRaised string

definition dq :: char where
  "dq = CHR 0x22"

definition newline :: char where
  "newline = CHR 0x0A"

text \<open>\<open>s.replace(old, new)\<close> of Python for a one-character \<open>old\<close>.\<close>

fun str_replace :: "char \<Rightarrow> string \<Rightarrow> string \<Rightarrow> string" where
  "str_replace old new [] = []"
| "str_replace old new (c # cs) =
     (if c = old then new @ str_replace old new cs else c # str_replace old new cs)"

text \<open>\<open>s.split(sep)\<close> of Python for a one-character separator: one piece more than
  there are separators, empty pieces included.\<close>

fun str_split :: "char \<Rightarrow> string \<Rightarrow> string list" where
  "str_split sep [] = [[]]"
| "str_split sep (c # cs) =
     (if c = sep then [] # str_split sep cs
      else (case str_split sep cs of
              [] \<Rightarrow> [[c]]
            | p # ps \<Rightarrow> (c # p) # ps))"

text \<open>\<open>sep.join(parts)\<close> of Python.\<close>

fun str_join :: "string \<Rightarrow> string list \<Rightarrow> string" where
  "str_join sep [] = []"
| "str_join sep [p] = p"
| "str_join sep (p # q # ps) = p @ sep @ str_join sep (q # ps)"

section \<open>The identifier sanitizer\<close>

text \<open>\<open>escape_sqlite_ident\<close>, line 335 of \<open>database.py\<close>.\<close>

definition escape_sqlite_ident :: "string \<Rightarrow> string" where
  "escape_sqlite_ident ident = [dq] @ str_replace dq [dq, dq] ident @ [dq]"

section \<open>The embedded engine\<close>

text \<open>
  The relational engine (SQLite, reached through \<open>sqlite3\<close> and through
  \<open>DataFrame.to_sql\<close>) is an external collaborator of the program. It is
  modelled as a catalog of relations together with the list of calls it has
  received, and it understands the fragment of SQL that \<open>database.py\<close> itself
  builds:
  \<^item> \<open>SELECT * FROM t\<close> and \<open>SELECT c1, ..., cn FROM t\<close>, where every identifier is
    either a bare word or a double-quoted identifier in which \<open>""\<close> stands for one
    quote character;
  \<^item> \<open>... FROM pragma_table_info("t")\<close>, the catalog's table-valued function.
  Keywords are matched without regard to case, the names of relations and of
  their columns by equality of strings. Any other text is rejected with
  \<open>EngineError\<close>.
\<close>

record relation =
  rel_columns :: "string list"
  rel_rows :: "val list list"

datatype engine_call =
    Execute string
  | ToSql string string

record engine =
  catalog :: "(string \<times> relation) list"
  calls :: "engine_call list"

datatype token = TWord string | TQuoted string | TSym char

definition is_space :: "char \<Rightarrow> bool" where
  "is_space c = (c = CHR '' '' \<or> c = newline \<or> c = CHR 0x09 \<or> c = CHR 0x0D)"

definition char_between :: "char \<Rightarrow> char \<Rightarrow> char \<Rightarrow> bool" where
  "char_between lo hi c =
     ((of_char lo :: nat) \<le> of_char c \<and> (of_char c :: nat) \<le> of_char hi)"

definition is_word_start :: "char \<Rightarrow> bool" where
  "is_word_start c =
     (char_between (CHR ''a'') (CHR ''z'') c \<or> char_between (CHR ''A'') (CHR ''Z'') c
      \<or> c = CHR ''_'')"

definition is_word_char :: "char \<Rightarrow> bool" where
  "is_word_char c = (is_word_start c \<or> char_between (CHR ''0'') (CHR ''9'') c)"

definition is_symbol :: "char \<Rightarrow> bool" where
  "is_symbol c = (c = CHR ''*'' \<or> c = CHR '','' \<or> c = CHR ''('' \<or> c = CHR '')'' \<or> c = CHR '';'')"

text \<open>The text after an opening quote: the identifier it spells and the text
  after its closing quote; \<open>None\<close> when the closing quote is missing.\<close>

fun read_quoted :: "string \<Rightarrow> (string \<times> string) option" where
  "read_quoted [] = None"
| "read_quoted (c # cs) =
     (if c \<noteq> dq then map_option (\<lambda>(s, r). (c # s, r)) (read_quoted cs)
      else (case cs of
              [] \<Rightarrow> Some ([], [])
            | d # ds \<Rightarrow>
                if d = dq then map_option (\<lambda>(s, r). (dq # s, r)) (read_quoted ds)
                else Some ([], cs)))"

lemma read_quoted_shorter:
  "read_quoted cs = Some (s, r) \<Longrightarrow> length r \<le> length cs"
proof (induction cs arbitrary: s r rule: read_quoted.induct)
  case 1
  then show ?case by simp
next
  case (2 c cs)
  show ?case
  proof (cases "c = dq")
    case False
    with 2(3) obtain s' where "read_quoted cs = Some (s', r)" by auto
    with 2(1) False show ?thesis by fastforce
  next
    case True
    show ?thesis
    proof (cases cs)
      case Nil
      with True 2(3) show ?thesis by simp
    next
      case (Cons d ds)
      show ?thesis
      proof (cases "d = dq")
        case False
        with True Cons 2(3) show ?thesis by auto
      next
        case d: True
        with True Cons 2(3) obtain s' where "read_quoted ds = Some (s', r)" by auto
        with 2(2) [OF _ Cons d] True Cons show ?thesis by fastforce
      qed
    qed
  qed
qed

function tokenize :: "string \<Rightarrow> token list option" where
  "tokenize [] = Some []"
| "tokenize (c # cs) =
     (if is_space c then tokenize cs
      else if c = dq then
        (case read_quoted cs of
           None \<Rightarrow> None
         | Some (s, r) \<Rightarrow> map_option (\<lambda>ts. TQuoted s # ts) (tokenize r))
      else if is_word_start c then
        map_option (\<lambda>ts. TWord (c # takeWhile is_word_char cs) # ts)
          (tokenize (dropWhile is_word_char cs))
      else if is_symbol c then map_option (\<lambda>ts. TSym c # ts) (tokenize cs)
      else None)"
  by pat_completeness auto
termination
proof (relation "measure length")
  show "wf (measure length)" by simp
next
  fix c :: char and cs x2 x y
  assume "read_quoted cs = Some x2" "(x, y) = x2"
  then have "length y \<le> length cs" using read_quoted_shorter [of cs x y] by simp
  then show "(y, c # cs) \<in> measure length" by simp
next
  fix c :: char and cs
  show "(dropWhile is_word_char cs, c # cs) \<in> measure length"
    using length_dropWhile_le [of is_word_char cs] by simp
qed simp_all


datatype select_list = Star | Cols "string list"

datatype from_clause = FromTable string | FromPragmaTableInfo string

datatype statement = Select select_list from_clause

definition lower :: "char \<Rightarrow> char" where
  "lower c = (if char_between (CHR ''A'') (CHR ''Z'') c
              then char_of (of_char c + (32 :: nat)) else c)"

definition keyword :: "string \<Rightarrow> token \<Rightarrow> bool" where
  "keyword k t = (case t of TWord w \<Rightarrow> map lower w = k | _ \<Rightarrow> False)"

text \<open>The words that the engine does not accept as a bare identifier.\<close>

definition reserved :: "string list" where
  "reserved = [''select'', ''from'', ''where'', ''table'', ''group'', ''order'',
     ''and'', ''or'', ''not'', ''null'', ''as'', ''on'', ''join'', ''union'', ''create'',
     ''drop'', ''insert'', ''into'', ''values'', ''update'', ''set'', ''delete'', ''index'',
     ''limit'', ''distinct'', ''having'', ''in'', ''is'', ''case'', ''when'', ''then'',
     ''else'', ''all'', ''exists'', ''to'', ''using'', ''primary'', ''unique'', ''check'',
     ''collate'', ''between'', ''default'', ''escape'', ''except'', ''intersect'',
     ''foreign'', ''references'', ''returning'', ''transaction'', ''commit'',
     ''constraint'', ''alter'', ''add'', ''autoincrement'', ''deferrable'', ''isnull'',
     ''notnull'', ''nothing'']"

fun ident :: "token \<Rightarrow> string option" where
  "ident (TQuoted s) = Some s"
| "ident (TWord w) = (if map lower w \<in> set reserved then None else Some w)"
| "ident (TSym c) = None"

fun parse_columns :: "token list \<Rightarrow> (string list \<times> token list) option" where
  "parse_columns [] = None"
| "parse_columns (t # ts) =
     (case ident t of
        None \<Rightarrow> None
      | Some n \<Rightarrow>
         (case ts of
            [] \<Rightarrow> Some ([n], ts)
          | u # us \<Rightarrow>
              if u = TSym (CHR '','')
              then map_option (\<lambda>(ns, r). (n # ns, r)) (parse_columns us)
              else Some ([n], ts)))"

definition parse_select_list :: "token list \<Rightarrow> (select_list \<times> token list) option" where
  "parse_select_list ts =
     (case ts of
        [] \<Rightarrow> None
      | t # r \<Rightarrow>
          if t = TSym (CHR ''*'') then Some (Star, r)
          else map_option (\<lambda>(ns, r). (Cols ns, r)) (parse_columns ts))"

fun parse_call_arg :: "token list \<Rightarrow> (string \<times> token list) option" where
  "parse_call_arg (TSym lp # TQuoted n # TSym rp # r) =
     (if lp = CHR ''('' \<and> rp = CHR '')'' then Some (n, r) else None)"
| "parse_call_arg ts = None"

definition parse_from :: "token list \<Rightarrow> (from_clause \<times> token list) option" where
  "parse_from ts =
     (case ts of
        [] \<Rightarrow> None
      | t # r \<Rightarrow>
          if keyword ''pragma_table_info'' t
          then map_option (\<lambda>(n, r'). (FromPragmaTableInfo n, r')) (parse_call_arg r)
          else map_option (\<lambda>n. (FromTable n, r)) (ident t))"

definition parse_statement :: "token list \<Rightarrow> statement option" where
  "parse_statement ts =
     (case ts of
        [] \<Rightarrow> None
      | t # r \<Rightarrow>
          if \<not> keyword ''select'' t then None
          else (case parse_select_list r of
                  None \<Rightarrow> None
                | Some (sel, r1) \<Rightarrow>
                   (case r1 of
                      [] \<Rightarrow> None
                    | f # r2 \<Rightarrow>
                        if \<not> keyword ''from'' f then None
                        else (case parse_from r2 of
                                None \<Rightarrow> None
                              | Some (src, r3) \<Rightarrow>
                                  if r3 = [] \<or> r3 = [TSym (CHR '';'')]
                                  then Some (Select sel src) else None))))"

definition index_of :: "'a \<Rightarrow> 'a list \<Rightarrow> nat" where
  "index_of x xs = length (takeWhile (\<lambda>y. y \<noteq> x) xs)"

text \<open>The cell of a row at a position; a row too short reads as null.\<close>

definition cell :: "val list \<Rightarrow> nat \<Rightarrow> val" where
  "cell row i = (if i < length row then row ! i else VNull)"

text \<open>
  The catalog's table-valued function \<open>pragma_table_info\<close>: one row per column of
  the named relation, holding its position and its name (the further attributes
  that the engine reports are left out).
  \<^item> Its argument arrives between double quotes, and the engine takes a
    double-quoted word first for a column in scope. The columns in scope are the
    function's own, the hidden ones and the row identifier included; names of
    columns compare without regard to case. An argument that spells one of them
    is that column, not a table's name, and the function finds no rows.
  \<^item> Any other argument is the text of a table's name; a name that the catalog
    does not hold gives no rows, not an error.
  \<^item> A relation of the catalog whose name is \<open>pragma_table_info\<close> hides the
    function: the engine then refuses every call of it.
\<close>

definition pragma_columns :: "string list" where
  "pragma_columns = [''cid'', ''name'', ''type'', ''notnull'', ''dflt_value'', ''pk'',
     ''arg'', ''schema'', ''rowid'', ''oid'', ''_rowid_'']"

definition pragma_table_info :: "(string \<times> relation) list \<Rightarrow> string \<Rightarrow> relation" where
  "pragma_table_info cat n =
     \<lparr>rel_columns = [''cid'', ''name''],
      rel_rows = (if map lower n \<in> set pragma_columns then []
                  else (case map_of cat n of
                          None \<Rightarrow> []
                        | Some r \<Rightarrow> map (\<lambda>(i, c). [VInt (int i), VStr c])
                                     (enumerate 0 (rel_columns r))))\<rparr>"

definition hides_pragma :: "(string \<times> relation) list \<Rightarrow> bool" where
  "hides_pragma cat = (''pragma_table_info'' \<in> set (map (\<lambda>p. map lower (fst p)) cat))"

definition from_relation :: "(string \<times> relation) list \<Rightarrow> from_clause \<Rightarrow> error + relation" where
  "from_relation cat src =
     (case src of
        FromPragmaTableInfo n \<Rightarrow>
          if hides_pragma cat then Inl (EngineError ''pragma_table_info is not a function'')
          else Inr (pragma_table_info cat n)
      | FromTable n \<Rightarrow>
         (case map_of cat n of
            None \<Rightarrow> Inl (EngineError (''no such table: '' @ n))
          | Some r \<Rightarrow> Inr r))"

definition project :: "string list \<Rightarrow> relation \<Rightarrow> error + relation" where
  "project cs r =
     (case find (\<lambda>c. c \<notin> set (rel_columns r)) cs of
        Some c \<Rightarrow> Inl (EngineError (''no such column: '' @ c))
      | None \<Rightarrow>
          Inr \<lparr>rel_columns = cs,
               rel_rows = map (\<lambda>row. map (\<lambda>c. cell row (index_of c (rel_columns r))) cs)
                            (rel_rows r)\<rparr>)"

definition run_select :: "(string \<times> relation) list \<Rightarrow> statement \<Rightarrow> error + relation" where
  "run_select cat stmt =
     (case stmt of
        Select sel src \<Rightarrow>
         (case from_relation cat src of
            Inl e \<Rightarrow> Inl e
          | Inr r \<Rightarrow> (case sel of Star \<Rightarrow> Inr r | Cols cs \<Rightarrow> project cs r)))"

text \<open>What the cursor holds after a statement: \<open>cursor.description\<close> (absent for a
  statement that returns no rows) and \<open>cursor.fetchall()\<close>.\<close>

record result_set =
  description :: "string list option"
  fetchall :: "val list list"

definition execute :: "string \<Rightarrow> engine \<Rightarrow> (error + result_set) \<times> engine" where
  "execute sql eng =
     (let eng' = eng\<lparr>calls := calls eng @ [Execute sql]\<rparr> in
      case tokenize sql of
        None \<Rightarrow> (Inl (EngineError ''unrecognized token''), eng')
      | Some ts \<Rightarrow>
         (case parse_statement ts of
            None \<Rightarrow> (Inl (EngineError ''syntax error''), eng')
          | Some stmt \<Rightarrow>
             (case run_select (catalog eng) stmt of
                Inl e \<Rightarrow> (Inl e, eng')
              | Inr r \<Rightarrow>
                  (Inr \<lparr>description = Some (rel_columns r), fetchall = rel_rows r\<rparr>, eng'))))"


section \<open>Data frames and the table container\<close>

text \<open>A \<open>pandas.DataFrame\<close> as the program uses it: ordered column labels and
  rows of cells.\<close>

record dataframe =
  df_columns :: "string list"
  df_rows :: "val list list"

text \<open>
  Modelled from the spec: the class \<open>Table\<close> of \<open>faro/table.py\<close>, which
  \<open>database.py\<close> imports and which is not among the sources. The specification
  calls it an immutable row/column data carrier with a conversion to the generic
  tabular form; \<open>Table(rows, header=False, columns=cs)\<close> is the record below and
  \<open>to_dataframe\<close> keeps columns, rows and cells as they are.
\<close>

record table =
  tbl_columns :: "string list"
  tbl_rows :: "val list list"

definition Table :: "val list list \<Rightarrow> string list \<Rightarrow> table" where
  "Table rows cols = \<lparr>tbl_columns = cols, tbl_rows = rows\<rparr>"

definition to_dataframe :: "table \<Rightarrow> dataframe" where
  "to_dataframe t = \<lparr>df_columns = tbl_columns t, df_rows = tbl_rows t\<rparr>"

text \<open>\<open>df[columns].values\<close>: the rows restricted to the listed labels, in the
  listed order; a label that the frame does not have raises \<open>KeyError\<close>.\<close>

definition df_select :: "string list \<Rightarrow> dataframe \<Rightarrow> error + val list list" where
  "df_select cols df =
     (case find (\<lambda>c. c \<notin> set (df_columns df)) cols of
        Some c \<Rightarrow> Inl (PandasError (''KeyError: '' @ c))
      | None \<Rightarrow>
          Inr (map (\<lambda>row. map (\<lambda>c. cell row (index_of c (df_columns df))) cols)
                 (df_rows df)))"

text \<open>\<open>df.to_dict(orient='records')\<close>: one dictionary per row, label to cell.\<close>

definition to_records :: "dataframe \<Rightarrow> (string \<times> val) list list" where
  "to_records df = map (\<lambda>row. zip (df_columns df) row) (df_rows df)"

text \<open>\<open>df[output] = result\<close>: an existing column keeps its place and takes the new
  cells, a new column goes last; a list of the wrong length raises \<open>ValueError\<close>.\<close>

definition set_column :: "string \<Rightarrow> val list \<Rightarrow> dataframe \<Rightarrow> error + dataframe" where
  "set_column output result df =
     (if length result \<noteq> length (df_rows df)
      then Inl (PandasError ''Length of values does not match length of index'')
      else if output \<in> set (df_columns df)
      then Inr \<lparr>df_columns = df_columns df,
                df_rows = map (\<lambda>(row, v). row[index_of output (df_columns df) := v])
                            (zip (df_rows df) result)\<rparr>
      else Inr \<lparr>df_columns = df_columns df @ [output],
                df_rows = map (\<lambda>(row, v). row @ [v]) (zip (df_rows df) result)\<rparr>)"

text \<open>
  \<open>df.to_sql(name, conn, if_exists=..., index=False)\<close>, the one mutating call that
  the program makes on the engine. pandas quotes the relation's name itself and
  refuses an empty name or label before it touches the engine. For a name that
  the catalog holds, \<open>fail\<close> raises, \<open>replace\<close> drops the relation and creates it
  from the frame, \<open>append\<close> inserts the frame's rows under the relation's own
  columns (a column that the frame lacks is null) and is refused when the frame
  has a label that the relation lacks. The engine refuses to create a relation
  without columns or with a repeated column name; under \<open>replace\<close> the old
  relation is gone by then.
\<close>

definition drop_relation :: "string \<Rightarrow> (string \<times> relation) list \<Rightarrow> (string \<times> relation) list" where
  "drop_relation name cat = filter (\<lambda>p. fst p \<noteq> name) cat"

definition create_relation :: "string \<Rightarrow> dataframe \<Rightarrow> engine \<Rightarrow> (error + unit) \<times> engine" where
  "create_relation name df eng =
     (if df_columns df = [] \<or> \<not> distinct (df_columns df)
      then (Inl (EngineError ''invalid column list''), eng)
      else (Inr (), eng\<lparr>catalog := catalog eng
              @ [(name, \<lparr>rel_columns = df_columns df, rel_rows = df_rows df\<rparr>)]\<rparr>))"

definition append_rows :: "dataframe \<Rightarrow> relation \<Rightarrow> relation" where
  "append_rows df r =
     r\<lparr>rel_rows := rel_rows r @
          map (\<lambda>row. map (\<lambda>c. if c \<in> set (df_columns df)
                                then cell row (index_of c (df_columns df)) else VNull)
                         (rel_columns r))
              (df_rows df)\<rparr>"

definition to_sql :: "dataframe \<Rightarrow> string \<Rightarrow> string \<Rightarrow> engine \<Rightarrow> (error + unit) \<times> engine" where
  "to_sql df name if_exists eng =
     (let eng' = eng\<lparr>calls := calls eng @ [ToSql name if_exists]\<rparr> in
      if name = [] \<or> [] \<in> set (df_columns df)
      then (Inl (PandasError ''Empty table or column name specified''), eng')
      else (case map_of (catalog eng) name of
              None \<Rightarrow> create_relation name df eng'
            | Some r \<Rightarrow>
                if if_exists = ''fail''
                then (Inl (PandasError (''Table already exists: '' @ name)), eng')
                else if if_exists = ''replace''
                then create_relation name df
                       (eng'\<lparr>catalog := drop_relation name (catalog eng)\<rparr>)
                else if set (df_columns df) \<subseteq> set (rel_columns r)
                then (Inr (), eng'\<lparr>catalog :=
                        map (\<lambda>p. if fst p = name then (name, append_rows df (snd p)) else p)
                          (catalog eng)\<rparr>)
                else (Inl (EngineError ''table has no such column''), eng')))"

section \<open>User functions\<close>

text \<open>
  The program reads two attributes of the function's code object and calls the
  function in two ways: \<open>func(*row)\<close> in \<open>map\<close> and \<open>func(**row)\<close> in \<open>map_into\<close>.
  A call returns a value or raises (\<open>Inl\<close>, with the exception's text).
\<close>

record pycode =
  co_varnames :: "string list"
  co_argcount :: nat

record pyfunc =
  code :: pycode
  call_positional :: "val list \<Rightarrow> string + val"
  call_keywords :: "(string \<times> val) list \<Rightarrow> string + val"

text \<open>
  A Python parameter list, in the order in which \<open>def\<close> declares it:
  positional-only parameters, positional-or-keyword parameters, \<open>*args\<close>,
  keyword-only parameters, \<open>**kwargs\<close>; a parameter is a name and, when it has
  one, its default. Python compiles it to a code object in which \<open>co_argcount\<close>
  counts the positional parameters, those with a default included, and
  \<open>co_varnames\<close> lists the positional parameters, then the keyword-only ones, then
  \<open>*args\<close> and \<open>**kwargs\<close>, then the other local variables.
\<close>

record signature =
  posonlyargs :: "(string \<times> val option) list"
  args :: "(string \<times> val option) list"
  vararg :: "string option"
  kwonlyargs :: "(string \<times> val option) list"
  kwarg :: "string option"

definition code_of :: "signature \<Rightarrow> string list \<Rightarrow> pycode" where
  "code_of sig locals =
     \<lparr>co_varnames = map fst (posonlyargs sig) @ map fst (args sig)
                      @ map fst (kwonlyargs sig)
                      @ (case vararg sig of None \<Rightarrow> [] | Some a \<Rightarrow> [a])
                      @ (case kwarg sig of None \<Rightarrow> [] | Some k \<Rightarrow> [k])
                      @ locals,
      co_argcount = length (posonlyargs sig) + length (args sig)\<rparr>"

text \<open>The list comprehensions over the rows: the first call that raises ends the
  loop.\<close>

fun map_rows :: "('a \<Rightarrow> string + val) \<Rightarrow> 'a list \<Rightarrow> error + val list" where
  "map_rows f [] = Inr []"
| "map_rows f (r # rs) =
     (case f r of
        Inl msg \<Rightarrow> Inl (FuncRaised msg)
      | Inr v \<Rightarrow> (case map_rows f rs of Inl e \<Rightarrow> Inl e | Inr vs \<Rightarrow> Inr (v # vs)))"


section \<open>The class \<open>Database\<close>\<close>

text \<open>
  The instance state: the engine behind \<open>_conn\<close> and \<open>_cursor\<close>, the display
  name and the list \<open>_tables\<close>. A method takes the state and returns its result
  (\<open>Inl\<close> for a raised exception) together with the state it leaves behind.
  Arguments have the types that the methods check with \<open>isinstance\<close>.
\<close>

record database =
  conn :: engine
  db_name :: string
  tables :: "string list"

definition Database :: "string \<Rightarrow> database" where
  "Database name = \<lparr>conn = \<lparr>catalog = [], calls = []\<rparr>, db_name = name, tables = []\<rparr>"

text \<open>What \<open>add_table\<close> can be given: a file path, a \<open>faro.Table\<close>, a
  \<open>pandas.DataFrame\<close>, or a value of another type.\<close>

datatype source = Path string | FaroTable table | Frame dataframe | OtherValue

text \<open>The file system and the pandas readers: whether a path exists, and what
  the reader chosen for an extension returns for a path.\<close>

record environment =
  path_exists :: "string \<Rightarrow> bool"
  read_func :: "string \<Rightarrow> string \<Rightarrow> error + dataframe"

text \<open>The extension that \<open>os.path.splitext\<close> returns: from the last dot of the last
  path component, unless only dots precede it there.\<close>

definition splitext_ext :: "string \<Rightarrow> string" where
  "splitext_ext p =
     (let base = rev (takeWhile (\<lambda>c. c \<noteq> CHR ''/'') (rev p));
          ext = rev (takeWhile (\<lambda>c. c \<noteq> CHR ''.'') (rev base));
          stem = rev (drop 1 (dropWhile (\<lambda>c. c \<noteq> CHR ''.'') (rev base)))
      in if CHR ''.'' \<in> set base \<and> (\<exists>c \<in> set stem. c \<noteq> CHR ''.'')
         then CHR ''.'' # ext else [])"

definition parse_dataframe :: "dataframe \<Rightarrow> string \<Rightarrow> string \<Rightarrow> database \<Rightarrow> (error + unit) \<times> database" where
  "parse_dataframe df name if_exists db =
     (case to_sql df name if_exists (conn db) of
        (r, eng') \<Rightarrow> (r, db\<lparr>conn := eng'\<rparr>))"

definition parse_faro_table :: "table \<Rightarrow> string \<Rightarrow> string \<Rightarrow> database \<Rightarrow> (error + unit) \<times> database" where
  "parse_faro_table t name if_exists db = parse_dataframe (to_dataframe t) name if_exists db"

definition parse_file :: "environment \<Rightarrow> string \<Rightarrow> string \<Rightarrow> string \<Rightarrow> database \<Rightarrow> (error + unit) \<times> database" where
  "parse_file env file name if_exists db =
     (if \<not> path_exists env file then (Inl (NotFoundError file), db)
      else let file_ext = splitext_ext file in
        if file_ext \<notin> set [''.csv'', ''.json'', ''.xlsx'']
        then (Inl (UnsupportedFormatError file_ext), db)
        else (case read_func env file_ext file of
                Inl e \<Rightarrow> (Inl e, db)
              | Inr df \<Rightarrow> parse_dataframe df name if_exists db))"

definition add_table :: "environment \<Rightarrow> source \<Rightarrow> string \<Rightarrow> string \<Rightarrow> database \<Rightarrow> (error + unit) \<times> database" where
  "add_table env tbl name if_exists db =
     (if if_exists \<notin> set [''fail'', ''replace'', ''append'']
      then (Inl InvalidPolicyError, db)
      else if name \<in> set (tables db) \<and> if_exists = ''fail''
      then (Inl (AlreadyExistsError name), db)
      else (case (case tbl of
                    Path file \<Rightarrow> parse_file env file name if_exists db
                  | FaroTable t \<Rightarrow> parse_faro_table t name if_exists db
                  | Frame df \<Rightarrow> parse_dataframe df name if_exists db
                  | OtherValue \<Rightarrow> (Inl InvalidSourceTypeError, db)) of
              (Inl e, db') \<Rightarrow> (Inl e, db')
            | (Inr u, db') \<Rightarrow>
                (Inr (), if name \<notin> set (tables db')
                         then db'\<lparr>tables := tables db' @ [name]\<rparr> else db')))"

definition query :: "string \<Rightarrow> database \<Rightarrow> (error + table) \<times> database" where
  "query sql db =
     (let expressions = filter (\<lambda>e. e \<noteq> []) (str_split (CHR '';'') sql) in
      if length expressions > 1 then (Inl MultiStatementError, db)
      else (case execute sql (conn db) of
              (Inl e, eng') \<Rightarrow> (Inl e, db\<lparr>conn := eng'\<rparr>)
            | (Inr res, eng') \<Rightarrow>
               (case description res of
                  None \<Rightarrow> (Inl (TypeError ''NoneType object is not iterable''),
                            db\<lparr>conn := eng'\<rparr>)
                | Some cols \<Rightarrow> (Inr (Table (fetchall res) cols), db\<lparr>conn := eng'\<rparr>))))"

text \<open>\<open>r[0]\<close> of a row of the catalog query, as text.\<close>

definition first_text :: "val list \<Rightarrow> string" where
  "first_text r = (case r of VStr s # rest \<Rightarrow> s | _ \<Rightarrow> [])"

definition column_names_sql :: "string \<Rightarrow> string" where
  "column_names_sql tbl =
     ''select name from pragma_table_info('' @ escape_sqlite_ident tbl @ '')''"

definition column_names :: "string \<Rightarrow> database \<Rightarrow> (error + string list) \<times> database" where
  "column_names tbl db =
     (case execute (column_names_sql tbl) (conn db) of
        (Inl e, eng') \<Rightarrow> (Inl e, db\<lparr>conn := eng'\<rparr>)
      | (Inr res, eng') \<Rightarrow> (Inr (map first_text (fetchall res)), db\<lparr>conn := eng'\<rparr>))"

definition map_sql :: "string \<Rightarrow> string" where
  "map_sql tbl = ''SELECT * FROM '' @ tbl"

definition map_db :: "environment \<Rightarrow> pyfunc \<Rightarrow> string \<Rightarrow> string list \<Rightarrow> string \<Rightarrow> bool \<Rightarrow> database \<Rightarrow> (error + unit) \<times> database" where
  "map_db env func tbl columns output overwrite db =
     (case query (map_sql tbl) db of
        (Inl e, db1) \<Rightarrow> (Inl e, db1)
      | (Inr t, db1) \<Rightarrow>
         (let df = to_dataframe t in
          if output \<in> set (df_columns df) \<and> overwrite = False
          then (Inl (ColumnExistsError output), db1)
          else (case df_select columns df of
                  Inl e \<Rightarrow> (Inl e, db1)
                | Inr rows \<Rightarrow>
                   (case map_rows (call_positional func) rows of
                      Inl e \<Rightarrow> (Inl e, db1)
                    | Inr result \<Rightarrow>
                       (case set_column output result df of
                          Inl e \<Rightarrow> (Inl e, db1)
                        | Inr df' \<Rightarrow> add_table env (Frame df') tbl ''replace'' db1)))))"

definition arg_names :: "pyfunc \<Rightarrow> string list" where
  "arg_names func = take (co_argcount (code func)) (co_varnames (code func))"

definition map_into_sql :: "string list \<Rightarrow> string \<Rightarrow> string" where
  "map_into_sql names tbl =
     ''SELECT '' @ str_join '', '' (map escape_sqlite_ident names)
       @ [newline] @ replicate 18 (CHR '' '') @ ''FROM '' @ escape_sqlite_ident tbl"

definition select_all_sql :: "string \<Rightarrow> string" where
  "select_all_sql tbl = ''select * from '' @ escape_sqlite_ident tbl"

definition map_into :: "environment \<Rightarrow> pyfunc \<Rightarrow> string \<Rightarrow> string \<Rightarrow> bool \<Rightarrow> database \<Rightarrow> (error + unit) \<times> database" where
  "map_into env func tbl output overwrite db =
     (case column_names tbl db of
        (Inl e, db1) \<Rightarrow> (Inl e, db1)
      | (Inr col_names, db1) \<Rightarrow>
         (case find (\<lambda>arg. arg \<notin> set col_names) (arg_names func) of
            Some arg \<Rightarrow> (Inl (UnboundParameterError arg tbl), db1)
          | None \<Rightarrow>
             (case query (map_into_sql (arg_names func) tbl) db1 of
                (Inl e, db2) \<Rightarrow> (Inl e, db2)
              | (Inr t, db2) \<Rightarrow>
                 (let df = to_dataframe t in
                  if output \<in> set col_names \<and> \<not> overwrite
                  then (Inl (ColumnExistsError output), db2)
                  else (case map_rows (call_keywords func) (to_records df) of
                          Inl e \<Rightarrow> (Inl e, db2)
                        | Inr result \<Rightarrow>
                           (case query (select_all_sql tbl) db2 of
                              (Inl e, db3) \<Rightarrow> (Inl e, db3)
                            | (Inr t', db3) \<Rightarrow>
                               (case set_column output result (to_dataframe t') of
                                  Inl e \<Rightarrow> (Inl e, db3)
                                | Inr df' \<Rightarrow>
                                    add_table env (Frame df') tbl ''replace'' db3)))))))"


section \<open>Notions used in the statements\<close>

text \<open>The tokens of a comma-separated list of quoted identifiers.\<close>

fun comma_list :: "string list \<Rightarrow> token list" where
  "comma_list [] = []"
| "comma_list [n] = [TQuoted n]"
| "comma_list (n # m # ms) = TQuoted n # TSym (CHR '','') # comma_list (m # ms)"

text \<open>The state after the engine has received one more call that left the catalog
  as it was.\<close>

definition logged :: "engine_call \<Rightarrow> database \<Rightarrow> database" where
  "logged c db = db\<lparr>conn := (conn db)\<lparr>calls := calls (conn db) @ [c]\<rparr>\<rparr>"

text \<open>The column names that the catalog function reports for the argument that
  \<open>column_names\<close> gives it.\<close>

definition schema :: "database \<Rightarrow> string \<Rightarrow> string list" where
  "schema db tbl =
     (if map lower tbl \<in> set pragma_columns then []
      else (case map_of (catalog (conn db)) tbl of None \<Rightarrow> [] | Some r \<Rightarrow> rel_columns r))"

text \<open>The keyword arguments of the calls \<open>func(**row)\<close>, one list per row of a
  relation: each name with the cell that the row holds under the column of that
  name.\<close>

definition keyword_rows :: "string list \<Rightarrow> relation \<Rightarrow> (string \<times> val) list list" where
  "keyword_rows names r =
     map (\<lambda>row. map (\<lambda>a. (a, cell row (index_of a (rel_columns r)))) names) (rel_rows r)"

section \<open>Example data\<close>

text \<open>An environment without files.\<close>

definition no_files :: environment where
  "no_files = \<lparr>path_exists = (\<lambda>p. False), read_func = (\<lambda>ext p. Inl (NotFoundError p))\<rparr>"

text \<open>The source of the end-to-end scenario: \<open>id\<close> = 1, 2, 3 and \<open>val\<close> = 10, 20, 30.\<close>

definition id_val_frame :: dataframe where
  "id_val_frame =
     \<lparr>df_columns = [''id'', ''val''],
      df_rows = [[VInt 1, VInt 10], [VInt 2, VInt 20], [VInt 3, VInt 30]]\<rparr>"

text \<open>\<open>def f(id, val): return id * val\<close>\<close>

definition times :: "val option \<Rightarrow> val option \<Rightarrow> string + val" where
  "times x y =
     (case (x, y) of
        (Some (VInt a), Some (VInt b)) \<Rightarrow> Inr (VInt (a * b))
      | _ \<Rightarrow> Inl ''TypeError'')"

definition f_id_val :: pyfunc where
  "f_id_val =
     \<lparr>code = code_of \<lparr>posonlyargs = [], args = [(''id'', None), (''val'', None)],
                       vararg = None, kwonlyargs = [], kwarg = None\<rparr> [],
      call_positional = (\<lambda>xs. case xs of [a, b] \<Rightarrow> times (Some a) (Some b)
                                | _ \<Rightarrow> Inl ''TypeError''),
      call_keywords = (\<lambda>kw. if set (map fst kw) = {''id'', ''val''}
                             then times (map_of kw ''id'') (map_of kw ''val'')
                             else Inl ''TypeError'')\<rparr>"

definition db_t :: database where
  "db_t = snd (add_table no_files (Frame id_val_frame) ''t'' ''fail'' (Database ''example''))"


text \<open>\<open>def f(x): return x\<close>\<close>

definition f_x :: pyfunc where
  "f_x =
     \<lparr>code = code_of \<lparr>posonlyargs = [], args = [(''x'', None)],
                       vararg = None, kwonlyargs = [], kwarg = None\<rparr> [],
      call_positional = (\<lambda>xs. case xs of [a] \<Rightarrow> Inr a | _ \<Rightarrow> Inl ''TypeError''),
      call_keywords = (\<lambda>kw. if map fst kw = [''x''] then Inr (snd (hd kw))
                             else Inl ''TypeError'')\<rparr>"

text \<open>The relation that the example source becomes.\<close>

definition rel_t :: relation where
  "rel_t = \<lparr>rel_columns = df_columns id_val_frame, rel_rows = df_rows id_val_frame\<rparr>"

text \<open>\<open>def f(id, scale=2): return id * scale\<close>\<close>

definition sig_id_scale :: signature where
  "sig_id_scale = \<lparr>posonlyargs = [], args = [(''id'', None), (''scale'', Some (VInt 2))],
                    vararg = None, kwonlyargs = [], kwarg = None\<rparr>"

definition f_scaled :: pyfunc where
  "f_scaled =
     \<lparr>code = code_of sig_id_scale [],
      call_positional = (\<lambda>xs. case xs of [a] \<Rightarrow> times (Some a) (Some (VInt 2))
                                | [a, b] \<Rightarrow> times (Some a) (Some b)
                                | _ \<Rightarrow> Inl ''TypeError''),
      call_keywords = (\<lambda>kw. if set (map fst kw) = {''id''}
                             then times (map_of kw ''id'') (Some (VInt 2))
                             else if set (map fst kw) = {''id'', ''scale''}
                             then times (map_of kw ''id'') (map_of kw ''scale'')
                             else Inl ''TypeError'')\<rparr>"

text \<open>The example database after \<open>map_into(f, 't', 'total')\<close>.\<close>

definition db_total :: database where
  "db_total = snd (map_into no_files f_id_val ''t'' ''total'' False db_t)"

text \<open>The example source under the name \<open>name\<close>.\<close>

definition db_name :: database where
  "db_name = snd (add_table no_files (Frame id_val_frame) ''name'' ''fail''
                    (Database ''example''))"

text \<open>The example source under a name with a space.\<close>

definition db_my_table :: database where
  "db_my_table = snd (add_table no_files (Frame id_val_frame) ''my table'' ''fail''
                        (Database ''example''))"

text \<open>Two relations whose names differ by a pair of double quotes: \<open>a\<close> with a
  column \<open>x\<close>, and the three-character name that begins and ends with a double
  quote, with a column \<open>y\<close>.\<close>

definition quoted_a :: string where
  "quoted_a = [dq] @ ''a'' @ [dq]"

definition frame_x :: dataframe where
  "frame_x = \<lparr>df_columns = [''x''], df_rows = [[VInt 1], [VInt 2]]\<rparr>"

definition frame_y :: dataframe where
  "frame_y = \<lparr>df_columns = [''y''], df_rows = [[VInt 7], [VInt 8]]\<rparr>"

definition db_two :: database where
  "db_two = snd (add_table no_files (Frame frame_y) quoted_a ''fail''
              (snd (add_table no_files (Frame frame_x) ''a'' ''fail'' (Database ''example''))))"

section \<open>The sanitizer and the engine's reader\<close>

lemma str_replace_concat:
  "str_replace old new s = concat (map (\<lambda>c. if c = old then new else [c]) s)"
  by (induction s) auto

lemma read_quoted_escaped:
  "rest = [] \<or> hd rest \<noteq> dq \<Longrightarrow>
   read_quoted (str_replace dq [dq, dq] s @ dq # rest) = Some (s, rest)"
  by (induction s) (auto split: list.splits)

lemma tokenize_escaped:
  assumes "rest = [] \<or> hd rest \<noteq> dq"
  shows "tokenize (escape_sqlite_ident s @ rest)
         = map_option (\<lambda>ts. TQuoted s # ts) (tokenize rest)"
  using read_quoted_escaped [OF assms, of s]
  by (simp add: escape_sqlite_ident_def is_space_def dq_def newline_def)

text \<open>
  Claim C7. The sanitizer is total: for every string it returns the string between
  two double quotes with each double quote of the string written twice, and the
  engine's reader takes the result, whatever the string, for exactly one quoted
  identifier that spells the string.
\<close>

theorem escape_sqlite_ident_quotes:
  "escape_sqlite_ident s
     = [dq] @ concat (map (\<lambda>c. if c = dq then [dq, dq] else [c]) s) @ [dq]
   \<and> length (escape_sqlite_ident s) = length s + length (filter (\<lambda>c. c = dq) s) + 2
   \<and> tokenize (escape_sqlite_ident s) = Some [TQuoted s]"
proof -
  have a: "escape_sqlite_ident s
           = [dq] @ concat (map (\<lambda>c. if c = dq then [dq, dq] else [c]) s) @ [dq]"
    by (simp add: escape_sqlite_ident_def str_replace_concat)
  have "length (str_replace dq [dq, dq] s) = length s + length (filter (\<lambda>c. c = dq) s)"
    by (induction s) auto
  then have b: "length (escape_sqlite_ident s)
                = length s + length (filter (\<lambda>c. c = dq) s) + 2"
    by (simp add: escape_sqlite_ident_def)
  have c: "tokenize (escape_sqlite_ident s) = Some [TQuoted s]"
    using tokenize_escaped [of "[]" s] by simp
  from a b c show ?thesis by blast
qed

section \<open>Engine calls\<close>

lemma execute_error_kind:
  "fst (execute sql eng) = Inl e \<Longrightarrow> \<exists>m. e = EngineError m"
  by (auto simp: execute_def Let_def run_select_def from_relation_def project_def
      split: option.splits sum.splits statement.splits from_clause.splits select_list.splits
        if_splits)

lemma execute_calls:
  "calls (snd (execute sql eng)) = calls eng @ [Execute sql]"
  by (auto simp: execute_def Let_def split: option.splits sum.splits)

lemma execute_catalog:
  "catalog (snd (execute sql eng)) = catalog eng"
  by (auto simp: execute_def Let_def split: option.splits sum.splits)

section \<open>The statements that the program builds\<close>

lemmas char_class_defs = is_space_def is_word_start_def is_word_char_def char_between_def
  is_symbol_def dq_def newline_def

lemma tokenize_column_names_sql:
  "tokenize (column_names_sql tbl)
   = Some [TWord ''select'', TWord ''name'', TWord ''from'', TWord ''pragma_table_info'',
           TSym (CHR ''(''), TQuoted tbl, TSym (CHR '')'')]"
proof -
  have "tokenize (escape_sqlite_ident tbl @ '')'') = Some [TQuoted tbl, TSym (CHR '')'')]"
    using tokenize_escaped [of "'')''" tbl] by (simp add: char_class_defs)
  then show ?thesis
    by (simp add: column_names_sql_def char_class_defs)
qed

lemma tokenize_select_all_sql:
  "tokenize (select_all_sql tbl)
   = Some [TWord ''select'', TSym (CHR ''*''), TWord ''from'', TQuoted tbl]"
proof -
  have "tokenize (escape_sqlite_ident tbl) = Some [TQuoted tbl]"
    using tokenize_escaped [of "[]" tbl] by simp
  then show ?thesis
    by (simp add: select_all_sql_def char_class_defs)
qed

lemma tokenize_join:
  "names \<noteq> [] \<Longrightarrow> rest \<noteq> [] \<Longrightarrow> hd rest \<noteq> dq \<Longrightarrow>
   tokenize (str_join '', '' (map escape_sqlite_ident names) @ rest)
   = map_option (\<lambda>ts. comma_list names @ ts) (tokenize rest)"
proof (induction names rule: comma_list.induct)
  case 1
  then show ?case by simp
next
  case (2 n)
  then show ?case using tokenize_escaped [of rest n] by simp
next
  case (3 n m ms)
  have "tokenize (escape_sqlite_ident n @ ('', '' @ str_join '', '' (map escape_sqlite_ident (m # ms)) @ rest))
        = map_option (\<lambda>ts. TQuoted n # ts) (tokenize ('', '' @ str_join '', '' (map escape_sqlite_ident (m # ms)) @ rest))"
    by (rule tokenize_escaped) (simp add: dq_def)
  moreover have "tokenize ('', '' @ str_join '', '' (map escape_sqlite_ident (m # ms)) @ rest)
        = map_option (\<lambda>ts. TSym (CHR '','') # ts) (tokenize (str_join '', '' (map escape_sqlite_ident (m # ms)) @ rest))"
    by (simp add: char_class_defs)
  ultimately show ?case using 3 by (simp add: option.map_comp comp_def)
qed

lemma tokenize_map_into_sql:
  assumes "names \<noteq> []"
  shows "tokenize (map_into_sql names tbl)
   = Some (TWord ''SELECT'' # comma_list names @ [TWord ''FROM'', TQuoted tbl])"
proof -
  have a: "tokenize (escape_sqlite_ident tbl) = Some [TQuoted tbl]"
    using tokenize_escaped [of "[]" tbl] by simp
  have b: "tokenize ([newline] @ replicate 18 (CHR '' '') @ ''FROM '' @ escape_sqlite_ident tbl)
    = Some [TWord ''FROM'', TQuoted tbl]"
    using a by (simp add: char_class_defs eval_nat_numeral)
  have "tokenize (str_join '', '' (map escape_sqlite_ident names) @ ([newline] @ replicate 18 (CHR '' '') @ ''FROM '' @ escape_sqlite_ident tbl))
     = map_option (\<lambda>ts. comma_list names @ ts) (tokenize ([newline] @ replicate 18 (CHR '' '') @ ''FROM '' @ escape_sqlite_ident tbl))"
    by (rule tokenize_join [OF assms]) (simp_all add: dq_def newline_def)
  with b show ?thesis
    by (simp add: map_into_sql_def char_class_defs)
qed

lemma tokenize_map_into_sql_Nil:
  "tokenize (map_into_sql [] tbl) = Some [TWord ''SELECT'', TWord ''FROM'', TQuoted tbl]"
proof -
  have a: "tokenize (escape_sqlite_ident tbl) = Some [TQuoted tbl]"
    using tokenize_escaped [of "[]" tbl] by simp
  show ?thesis using a
    by (simp add: map_into_sql_def char_class_defs eval_nat_numeral)
qed

lemma parse_columns_comma_list:
  "names \<noteq> [] \<Longrightarrow> ts = [] \<or> hd ts \<noteq> TSym (CHR '','') \<Longrightarrow>
   parse_columns (comma_list names @ ts) = Some (names, ts)"
  by (induction names rule: comma_list.induct) (auto split: list.splits)


lemma lower_upper_case:
  "map lower ''SELECT'' = ''select''" "map lower ''FROM'' = ''from''"
  by code_simp+

lemma keyword_upper_case:
  "keyword ''select'' (TWord ''SELECT'')" "keyword ''from'' (TWord ''FROM'')"
  "\<not> keyword ''select'' (TWord ''FROM'')" "\<not> keyword ''pragma_table_info'' (TQuoted tbl)"
  "ident (TWord ''FROM'') = None"
  by (simp_all add: keyword_def lower_upper_case reserved_def del: list.map)

lemmas parse_defs = parse_statement_def parse_select_list_def parse_from_def keyword_def
  lower_def char_between_def reserved_def

lemma parse_column_names_sql:
  "parse_statement [TWord ''select'', TWord ''name'', TWord ''from'', TWord ''pragma_table_info'',
           TSym (CHR ''(''), TQuoted tbl, TSym (CHR '')'')]
   = Some (Select (Cols [''name'']) (FromPragmaTableInfo tbl))"
  by (simp add: parse_defs)

lemma parse_select_all_sql:
  "parse_statement [TWord ''select'', TSym (CHR ''*''), TWord ''from'', TQuoted tbl]
   = Some (Select Star (FromTable tbl))"
  by (simp add: parse_defs)

lemma parse_map_into_sql:
  assumes "names \<noteq> []"
  shows "parse_statement (TWord ''SELECT'' # comma_list names @ [TWord ''FROM'', TQuoted tbl])
   = Some (Select (Cols names) (FromTable tbl))"
proof -
  have c: "comma_list names @ [TWord ''FROM'', TQuoted tbl] \<noteq> []" by simp
  have h: "hd (comma_list names @ [TWord ''FROM'', TQuoted tbl]) \<noteq> TSym (CHR ''*'')"
    using assms by (cases names rule: comma_list.cases) auto
  have p: "parse_columns (comma_list names @ [TWord ''FROM'', TQuoted tbl])
           = Some (names, [TWord ''FROM'', TQuoted tbl])"
    by (rule parse_columns_comma_list [OF assms]) simp
  have "parse_select_list (comma_list names @ [TWord ''FROM'', TQuoted tbl])
        = Some (Cols names, [TWord ''FROM'', TQuoted tbl])"
    using c h p by (cases "comma_list names @ [TWord ''FROM'', TQuoted tbl]")
      (auto simp: parse_select_list_def)
  then show ?thesis
    by (simp add: parse_statement_def parse_from_def keyword_upper_case)
qed

lemma parse_map_into_sql_Nil:
  "parse_statement [TWord ''SELECT'', TWord ''FROM'', TQuoted tbl] = None"
proof -
  have "parse_columns [TWord ''FROM'', TQuoted tbl] = None"
    by (simp add: keyword_upper_case del: ident.simps)
  then show ?thesis
    by (simp add: parse_statement_def parse_select_list_def keyword_upper_case)
qed

lemma pragma_names:
  "project [''name''] (pragma_table_info cat tbl)
   = Inr \<lparr>rel_columns = [''name''],
          rel_rows = map (\<lambda>c. [VStr c])
            (if map lower tbl \<in> set pragma_columns then []
             else (case map_of cat tbl of None \<Rightarrow> [] | Some r \<Rightarrow> rel_columns r))\<rparr>"
proof -
  have "map (\<lambda>x. [cell (case x of (i, c) \<Rightarrow> [VInt (int i), VStr c]) (Suc 0)]) (enumerate n cs)
        = map (\<lambda>c. [VStr c]) cs" for n and cs :: "string list"
    by (induction cs arbitrary: n) (auto simp: cell_def)
  then show ?thesis
    by (simp add: project_def pragma_table_info_def index_of_def comp_def split: option.splits)
qed

lemma execute_column_names_sql:
  "execute (column_names_sql tbl) eng
   = ((if hides_pragma (catalog eng)
       then Inl (EngineError ''pragma_table_info is not a function'')
       else Inr \<lparr>description = Some [''name''],
                 fetchall = map (\<lambda>c. [VStr c])
                   (if map lower tbl \<in> set pragma_columns then []
                    else (case map_of (catalog eng) tbl of
                            None \<Rightarrow> [] | Some r \<Rightarrow> rel_columns r))\<rparr>),
      eng\<lparr>calls := calls eng @ [Execute (column_names_sql tbl)]\<rparr>)"
  by (simp add: execute_def tokenize_column_names_sql parse_column_names_sql run_select_def
      from_relation_def pragma_names)

lemma column_names_eq:
  "column_names tbl db
   = ((if hides_pragma (catalog (conn db))
       then Inl (EngineError ''pragma_table_info is not a function'')
       else Inr (schema db tbl)),
      logged (Execute (column_names_sql tbl)) db)"
  by (simp add: column_names_def execute_column_names_sql schema_def logged_def comp_def
      first_text_def split: option.splits)

lemma execute_select_all_sql:
  "execute (select_all_sql tbl) eng
   = ((case map_of (catalog eng) tbl of
         None \<Rightarrow> Inl (EngineError (''no such table: '' @ tbl))
       | Some r \<Rightarrow> Inr \<lparr>description = Some (rel_columns r), fetchall = rel_rows r\<rparr>),
      eng\<lparr>calls := calls eng @ [Execute (select_all_sql tbl)]\<rparr>)"
  by (simp add: execute_def tokenize_select_all_sql parse_select_all_sql run_select_def
      from_relation_def split: option.splits)

lemma execute_map_into_sql:
  assumes "names \<noteq> []"
  shows "execute (map_into_sql names tbl) eng
   = ((case map_of (catalog eng) tbl of
         None \<Rightarrow> Inl (EngineError (''no such table: '' @ tbl))
       | Some r \<Rightarrow>
          (case project names r of
             Inl e \<Rightarrow> Inl e
           | Inr p \<Rightarrow> Inr \<lparr>description = Some (rel_columns p), fetchall = rel_rows p\<rparr>)),
      eng\<lparr>calls := calls eng @ [Execute (map_into_sql names tbl)]\<rparr>)"
  by (simp add: execute_def tokenize_map_into_sql [OF assms] parse_map_into_sql [OF assms]
      run_select_def from_relation_def split: option.splits sum.splits)

lemma execute_map_into_sql_Nil:
  "execute (map_into_sql [] tbl) eng
   = (Inl (EngineError ''syntax error''),
      eng\<lparr>calls := calls eng @ [Execute (map_into_sql [] tbl)]\<rparr>)"
  by (simp add: execute_def tokenize_map_into_sql_Nil parse_map_into_sql_Nil)

section \<open>\<open>query\<close>\<close>

text \<open>
  Claim C6. \<open>query\<close> splits its input on the semicolon. It fails with
  \<open>MultiStatementError\<close> exactly when the split leaves more than one non-empty
  piece; it then returns the state it was given, so the engine has received no
  call. In every other case the engine receives the input, once.
\<close>

theorem query_single_statement:
  "(fst (query sql db) = Inl MultiStatementError)
      = (1 < length (filter (\<lambda>e. e \<noteq> []) (str_split (CHR '';'') sql)))
   \<and> (fst (query sql db) = Inl MultiStatementError \<longrightarrow> snd (query sql db) = db)
   \<and> (fst (query sql db) \<noteq> Inl MultiStatementError \<longrightarrow>
        calls (conn (snd (query sql db))) = calls (conn db) @ [Execute sql])"
proof (cases "1 < length (filter (\<lambda>e. e \<noteq> []) (str_split (CHR '';'') sql))")
  case True
  then show ?thesis by (simp add: query_def)
next
  case False
  obtain r eng' where ex: "execute sql (conn db) = (r, eng')"
    by (cases "execute sql (conn db)")
  have c: "calls eng' = calls (conn db) @ [Execute sql]"
    using execute_calls [of sql "conn db"] ex by simp
  have k: "r \<noteq> Inl MultiStatementError"
    using execute_error_kind [of sql "conn db" MultiStatementError] ex by auto
  from False ex c k show ?thesis
    by (auto simp: query_def split: sum.splits option.splits)
qed

theorem query_single_statement_witness:
  "fst (query ''SELECT 1; SELECT 2'' db_t) = Inl MultiStatementError
   \<and> snd (query ''SELECT 1; SELECT 2'' db_t) = db_t
   \<and> fst (query ''SELECT * FROM t;'' db_t) \<noteq> Inl MultiStatementError
   \<and> calls (conn (snd (query ''SELECT * FROM t;'' db_t)))
        = calls (conn db_t) @ [Execute ''SELECT * FROM t;'']"
proof -
  have a: "1 < length (filter (\<lambda>e. e \<noteq> []) (str_split (CHR '';'') ''SELECT 1; SELECT 2''))"
    by simp
  have b: "\<not> 1 < length (filter (\<lambda>e. e \<noteq> []) (str_split (CHR '';'') ''SELECT * FROM t;''))"
    by simp
  show ?thesis
    using a b query_single_statement [of "''SELECT 1; SELECT 2''" db_t]
      query_single_statement [of "''SELECT * FROM t;''" db_t]
    by blast
qed

section \<open>\<open>add_table\<close>\<close>

lemma add_table_registers:
  "add_table env src name pol db = (Inr u, db') \<Longrightarrow> name \<in> set (tables db')"
  by (auto simp: add_table_def split: if_splits sum.splits prod.splits)

text \<open>
  Claim C5. \<open>add_table\<close> with policy \<open>fail\<close> under a name that the instance knows
  fails with \<open>AlreadyExistsError\<close> and returns the state it was given: no engine
  call is made and every relation is as it was. In particular, after a
  successful \<open>add_table\<close> under a name, a second one under the same name with
  policy \<open>fail\<close> fails so.
\<close>

theorem add_table_fail_on_known_name:
  "(name \<in> set (tables db) \<longrightarrow>
      add_table env src name ''fail'' db = (Inl (AlreadyExistsError name), db))
   \<and> (add_table env src name pol db = (Inr u, db1) \<longrightarrow>
      add_table env src2 name ''fail'' db1 = (Inl (AlreadyExistsError name), db1))"
proof -
  have a: "add_table env' s name ''fail'' d = (Inl (AlreadyExistsError name), d)"
    if "name \<in> set (tables d)" for env' s d
    using that by (simp add: add_table_def)
  show ?thesis using a add_table_registers by blast
qed

theorem add_table_fail_on_known_name_witness:
  "''t'' \<in> set (tables db_t)
   \<and> add_table no_files (Frame id_val_frame) ''t'' ''fail'' (Database ''example'') = (Inr (), db_t)
   \<and> add_table no_files (Frame id_val_frame) ''t'' ''fail'' db_t
        = (Inl (AlreadyExistsError ''t''), db_t)"
proof -
  have a: "''t'' \<in> set (tables db_t)" by code_simp
  have b: "add_table no_files (Frame id_val_frame) ''t'' ''fail'' (Database ''example'')
           = (Inr (), db_t)"
    by code_simp
  show ?thesis
    using a b
      add_table_fail_on_known_name [of "''t''" db_t no_files "Frame id_val_frame"]
      add_table_fail_on_known_name [of "''t''" "Database ''example''" no_files
        "Frame id_val_frame" "''fail''" "()" db_t "Frame id_val_frame"]
    by blast
qed

section \<open>\<open>column_names\<close>\<close>

text \<open>
  Claim C9 says that \<open>column_names\<close> fails for a name that the catalog does not
  hold. It does not: on the example database the unknown name \<open>nope\<close> gives the
  empty list.
\<close>

theorem column_names_unknown_counterexample:
  "map_of (catalog (conn db_t)) ''nope'' = None
   \<and> fst (column_names ''nope'' db_t) = Inr []
   \<and> \<not> (\<exists>e. fst (column_names ''nope'' db_t) = Inl e)"
proof -
  have a: "map_of (catalog (conn db_t)) ''nope'' = None" by code_simp
  have b: "fst (column_names ''nope'' db_t) = Inr []" by code_simp
  from a b show ?thesis by simp
qed

text \<open>
  Claim C9, amended. For a name that the catalog does not hold, \<open>column_names\<close>
  returns the empty list; the engine has received the catalog query and nothing
  else has changed. This is so in every database without a relation called
  \<open>pragma_table_info\<close>; such a relation hides the catalog function, and the
  engine then refuses the query for every name.
\<close>

theorem column_names_unknown_table:
  assumes "map_of (catalog (conn db)) tbl = None"
    and "\<not> hides_pragma (catalog (conn db))"
  shows "column_names tbl db = (Inr [], logged (Execute (column_names_sql tbl)) db)"
  using assms by (simp add: column_names_eq schema_def)

theorem column_names_unknown_table_witness:
  "map_of (catalog (conn db_t)) ''nope'' = None
   \<and> \<not> hides_pragma (catalog (conn db_t))
   \<and> column_names ''nope'' db_t
       = (Inr [], logged (Execute (column_names_sql ''nope'')) db_t)"
proof -
  have a: "map_of (catalog (conn db_t)) ''nope'' = None" by code_simp
  have b: "\<not> hides_pragma (catalog (conn db_t))" by code_simp
  from a b column_names_unknown_table [OF a b] show ?thesis by simp
qed

lemma column_names_hidden:
  assumes "hides_pragma (catalog (conn db))"
  shows "column_names tbl db
         = (Inl (EngineError ''pragma_table_info is not a function''),
            logged (Execute (column_names_sql tbl)) db)"
  using assms by (simp add: column_names_eq)

section \<open>\<open>map_into\<close>: binding\<close>

lemma find_missing_None: "(find (\<lambda>a. a \<notin> S) xs = None) = (set xs \<subseteq> S)"
  by (induction xs) auto

lemma find_missing_Some:
  "find (\<lambda>a. a \<notin> S) xs = Some a \<Longrightarrow> a \<in> set xs \<and> a \<notin> S"
  by (induction xs) (auto split: if_splits)

text \<open>
  The binding check of \<open>map_into\<close> compares the argument names with what
  \<open>column_names\<close> returns: the first argument name that is not among them is
  reported, before any row is read.
\<close>

lemma map_into_unbound:
  assumes "column_names tbl db = (Inr cols, db1)"
    and "find (\<lambda>a. a \<notin> set cols) (arg_names func) = Some arg"
  shows "map_into env func tbl output overwrite db = (Inl (UnboundParameterError arg tbl), db1)"
  using assms by (simp add: map_into_def)

text \<open>
  Claim C3 at an existing table called \<open>name\<close>, with the columns \<open>id\<close> and \<open>val\<close>
  and the function \<open>f(id, val)\<close>. Every argument name is a column of the table.
  The catalog query that \<open>column_names\<close> builds passes the table's name between
  double quotes, the engine takes it for the column \<open>name\<close> of the catalog
  function and reports no rows, and \<open>map_into\<close> fails with
  \<open>UnboundParameterError\<close> for \<open>id\<close>.
\<close>

theorem map_into_table_called_name:
  "add_table no_files (Frame id_val_frame) ''name'' ''fail'' (Database ''example'')
     = (Inr (), db_name)
   \<and> map_of (catalog (conn db_name)) ''name'' = Some rel_t
   \<and> set (arg_names f_id_val) \<subseteq> set (rel_columns rel_t)
   \<and> fst (column_names ''name'' db_name) = Inr []
   \<and> fst (map_into no_files f_id_val ''name'' ''total'' False db_name)
       = Inl (UnboundParameterError ''id'' ''name'')"
  by code_simp

section \<open>Reads leave the catalog alone\<close>

lemma query_catalog: "catalog (conn (snd (query sql db))) = catalog (conn db)"
  using execute_catalog [of sql "conn db"]
  by (auto simp: query_def Let_def split: prod.splits sum.splits option.splits)

lemma query_tables: "tables (snd (query sql db)) = tables db"
  by (auto simp: query_def Let_def split: prod.splits sum.splits option.splits)

lemma column_names_catalog: "catalog (conn (snd (column_names tbl db))) = catalog (conn db)"
  by (simp add: column_names_eq logged_def)

lemma column_names_tables: "tables (snd (column_names tbl db)) = tables db"
  by (simp add: column_names_eq logged_def)

section \<open>\<open>map_into\<close>: a successful call\<close>

lemma logged_simps:
  "catalog (conn (logged c db)) = catalog (conn db)"
  "tables (logged c db) = tables db"
  "calls (conn (logged c db)) = calls (conn db) @ [c]"
  by (simp_all add: logged_def)

lemma project_subset:
  assumes "set names \<subseteq> set (rel_columns r)"
  shows "project names r
         = Inr \<lparr>rel_columns = names,
                rel_rows = map (\<lambda>row. map (\<lambda>c. cell row (index_of c (rel_columns r))) names)
                             (rel_rows r)\<rparr>"
  using assms find_missing_None [of "set (rel_columns r)" names] by (simp add: project_def)

lemma query_map_into_sql:
  assumes "map_of (catalog (conn db)) tbl = Some r" "names \<noteq> []"
    "set names \<subseteq> set (rel_columns r)"
  shows "query (map_into_sql names tbl) db
         = (if 1 < length (filter (\<lambda>e. e \<noteq> []) (str_split (CHR '';'') (map_into_sql names tbl)))
            then (Inl MultiStatementError, db)
            else (Inr (Table (map (\<lambda>row. map (\<lambda>c. cell row (index_of c (rel_columns r))) names)
                                (rel_rows r)) names),
                  logged (Execute (map_into_sql names tbl)) db))"
  using assms
  by (simp add: query_def execute_map_into_sql project_subset logged_def)

lemma query_map_into_sql_Nil:
  "fst (query (map_into_sql [] tbl) db) \<noteq> Inr t"
  by (simp add: query_def execute_map_into_sql_Nil)

lemma query_select_all_sql:
  assumes "map_of (catalog (conn db)) tbl = Some r"
  shows "query (select_all_sql tbl) db
         = (if 1 < length (filter (\<lambda>e. e \<noteq> []) (str_split (CHR '';'') (select_all_sql tbl)))
            then (Inl MultiStatementError, db)
            else (Inr (Table (rel_rows r) (rel_columns r)),
                  logged (Execute (select_all_sql tbl)) db))"
  using assms
  by (simp add: query_def execute_select_all_sql logged_def)

lemma drop_relation_absent:
  "map_of cat n = None \<Longrightarrow> drop_relation n cat = cat"
  by (induction cat) (auto simp: drop_relation_def split: if_splits)

lemma map_of_replaced:
  "map_of (drop_relation n cat @ [(n, x)]) m = (if m = n then Some x else map_of cat m)"
  by (induction cat) (auto simp: drop_relation_def)

lemma add_table_frame_replace:
  assumes "add_table env (Frame df) tbl ''replace'' db = (Inr u, db')"
  shows "catalog (conn db')
         = drop_relation tbl (catalog (conn db))
             @ [(tbl, \<lparr>rel_columns = df_columns df, rel_rows = df_rows df\<rparr>)]"
  using assms drop_relation_absent [of "catalog (conn db)" tbl]
  by (auto simp: add_table_def parse_dataframe_def to_sql_def Let_def create_relation_def
      split: if_splits prod.splits sum.splits option.splits)

lemma zip_map_self: "zip xs (map f xs) = map (\<lambda>x. (x, f x)) xs"
  by (induction xs) auto

lemma map_into_success:
  assumes r: "map_of (catalog (conn db)) tbl = Some r"
    and ok: "map_into env func tbl output overwrite db = (Inr u, db')"
  shows "\<exists>result df'.
      map_rows (call_keywords func)
        (map (\<lambda>row. map (\<lambda>a. (a, cell row (index_of a (rel_columns r)))) (arg_names func))
           (rel_rows r)) = Inr result
    \<and> set_column output result \<lparr>df_columns = rel_columns r, df_rows = rel_rows r\<rparr> = Inr df'
    \<and> catalog (conn db')
        = drop_relation tbl (catalog (conn db))
            @ [(tbl, \<lparr>rel_columns = df_columns df', rel_rows = df_rows df'\<rparr>)]"
proof -
  let ?names = "arg_names func"
  let ?db1 = "logged (Execute (column_names_sql tbl)) db"
  let ?db2 = "logged (Execute (map_into_sql ?names tbl)) ?db1"
  let ?db3 = "logged (Execute (select_all_sql tbl)) ?db2"
  let ?recs = "map (\<lambda>row. map (\<lambda>a. (a, cell row (index_of a (rel_columns r)))) ?names) (rel_rows r)"
  have nh: "\<not> hides_pragma (catalog (conn db))"
    using ok by (auto simp: map_into_def column_names_eq split: if_splits)
  then have cn: "column_names tbl db = (Inr (schema db tbl), ?db1)"
    by (simp add: column_names_eq)
  have f0: "find (\<lambda>a. a \<notin> set (schema db tbl)) ?names = None"
    using ok cn by (auto simp: map_into_def split: option.splits)
  have ne: "?names \<noteq> []"
  proof
    assume "?names = []"
    with ok cn f0 query_map_into_sql_Nil [of tbl ?db1] show False
      by (auto simp: map_into_def split: prod.splits sum.splits)
  qed
  have own: "map lower tbl \<notin> set pragma_columns"
  proof
    assume "map lower tbl \<in> set pragma_columns"
    then have "schema db tbl = []" by (simp add: schema_def)
    with f0 have "set ?names \<subseteq> {}" using find_missing_None [of "{}" ?names] by simp
    with ne show False by simp
  qed
  have s: "schema db tbl = rel_columns r" using r own by (simp add: schema_def)
  have f: "find (\<lambda>a. a \<notin> set (rel_columns r)) ?names = None" using f0 s by simp
  then have sub: "set ?names \<subseteq> set (rel_columns r)" by (simp add: find_missing_None)
  have r1: "map_of (catalog (conn ?db1)) tbl = Some r" using r by (simp add: logged_simps)
  have r2: "map_of (catalog (conn ?db2)) tbl = Some r" using r by (simp add: logged_simps)
  note q1 = query_map_into_sql [OF r1 ne sub]
  note q2 = query_select_all_sql [OF r2]
  have recs: "to_records (to_dataframe (Table (map (\<lambda>row. map (\<lambda>c. cell row (index_of c (rel_columns r))) ?names)
                                (rel_rows r)) ?names)) = ?recs"
    by (simp add: to_records_def to_dataframe_def Table_def zip_map_self comp_def)
  have fr: "to_dataframe (Table (rel_rows r) (rel_columns r))
            = \<lparr>df_columns = rel_columns r, df_rows = rel_rows r\<rparr>"
    by (simp add: to_dataframe_def Table_def)
  from ok s f obtain result df' where
    a: "map_rows (call_keywords func) ?recs = Inr result"
    and b: "set_column output result \<lparr>df_columns = rel_columns r, df_rows = rel_rows r\<rparr> = Inr df'"
    and c: "add_table env (Frame df') tbl ''replace'' ?db3 = (Inr u, db')"
    by (auto simp: map_into_def cn q1 q2 recs fr Let_def
        split: if_splits sum.splits)
  from add_table_frame_replace [OF c] have
    "catalog (conn db') = drop_relation tbl (catalog (conn db))
            @ [(tbl, \<lparr>rel_columns = df_columns df', rel_rows = df_rows df'\<rparr>)]"
    by (simp add: logged_simps)
  with a b show ?thesis by blast
qed

lemma map_rows_calls:
  "map_rows f rs = Inr vs \<Longrightarrow> map f rs = map Inr vs"
  by (induction rs arbitrary: vs) (auto split: sum.splits)

lemma index_of_member:
  "a \<in> set xs \<Longrightarrow> index_of a xs < length xs \<and> xs ! index_of a xs = a"
  by (induction xs) (auto simp: index_of_def)

lemma cell_reordered:
  assumes "a \<in> set cols'"
  shows "cell (map (\<lambda>c. cell row (index_of c cols)) cols') (index_of a cols')
         = cell row (index_of a cols)"
proof -
  from index_of_member [OF assms]
  have "index_of a cols' < length cols'" "cols' ! index_of a cols' = a" by simp_all
  then show ?thesis by (simp add: cell_def [of "map _ _"])
qed

lemma keyword_rows_reordered:
  assumes "set names \<subseteq> set cols'" "project cols' r = Inr r'"
  shows "keyword_rows names r' = keyword_rows names r"
proof -
  have r': "r' = \<lparr>rel_columns = cols',
                 rel_rows = map (\<lambda>row. map (\<lambda>c. cell row (index_of c (rel_columns r))) cols')
                              (rel_rows r)\<rparr>"
    using assms(2) by (auto simp: project_def split: option.splits)
  have "map (\<lambda>a. (a, cell (map (\<lambda>c. cell row (index_of c (rel_columns r))) cols') (index_of a cols'))) names
        = map (\<lambda>a. (a, cell row (index_of a (rel_columns r)))) names" for row
    using assms(1) by (intro map_cong) (auto simp: cell_reordered)
  then show ?thesis by (simp add: keyword_rows_def r' comp_def)
qed

text \<open>
  Claim C2 says that the binding names leave out the parameters that have a
  default. They do not: for \<open>def f(id, scale=2)\<close> the names are \<open>id\<close> and \<open>scale\<close>,
  and on the table \<open>t\<close>, which has no column \<open>scale\<close>, the call fails.
\<close>

theorem binding_names_counterexample:
  "(''scale'', Some (VInt 2)) \<in> set (args sig_id_scale)
   \<and> code f_scaled = code_of sig_id_scale []
   \<and> arg_names f_scaled = [''id'', ''scale'']
   \<and> fst (map_into no_files f_scaled ''t'' ''total'' False db_t)
       = Inl (UnboundParameterError ''scale'' ''t'')"
proof -
  have a: "(''scale'', Some (VInt 2)) \<in> set (args sig_id_scale)" by (simp add: sig_id_scale_def)
  have b: "code f_scaled = code_of sig_id_scale []" by (simp add: f_scaled_def)
  have c: "arg_names f_scaled = [''id'', ''scale'']" by code_simp
  have d: "fst (map_into no_files f_scaled ''t'' ''total'' False db_t)
       = Inl (UnboundParameterError ''scale'' ''t'')" by code_simp
  from a b c d show ?thesis by simp
qed

text \<open>
  Claim C2, amended. The binding names of a function are its positional
  parameters (positional-only and positional-or-keyword, with or without a
  default) in the declared order; \<open>*args\<close>, keyword-only parameters and
  \<open>**kwargs\<close> are left out. A successful \<open>map_into\<close> on a relation of the catalog
  has called the function once per row, in the order of the rows, with each
  binding name bound to the row's cell under the column of that name; the
  results are the cells of the output column of the relation the call leaves
  under the table's name. The keyword arguments are the same for the relation
  with its columns in any other order.
\<close>

theorem map_into_binds_by_name:
  "(code func = code_of sig locals \<longrightarrow>
      arg_names func = map fst (posonlyargs sig) @ map fst (args sig))
   \<and> (map_of (catalog (conn db)) tbl = Some r
       \<and> map_into env func tbl output overwrite db = (Inr u, db') \<longrightarrow>
      (\<exists>result df'.
         map (call_keywords func) (keyword_rows (arg_names func) r) = map Inr result
       \<and> set_column output result \<lparr>df_columns = rel_columns r, df_rows = rel_rows r\<rparr> = Inr df'
       \<and> map_of (catalog (conn db')) tbl
           = Some \<lparr>rel_columns = df_columns df', rel_rows = df_rows df'\<rparr>))
   \<and> (set (arg_names func) \<subseteq> set cols' \<and> project cols' r = Inr r' \<longrightarrow>
      keyword_rows (arg_names func) r' = keyword_rows (arg_names func) r)"
proof -
  have a: "arg_names func = map fst (posonlyargs sig) @ map fst (args sig)"
    if "code func = code_of sig locals"
    using that by (simp add: arg_names_def code_of_def)
  have b: "\<exists>result df'.
         map (call_keywords func) (keyword_rows (arg_names func) r) = map Inr result
       \<and> set_column output result \<lparr>df_columns = rel_columns r, df_rows = rel_rows r\<rparr> = Inr df'
       \<and> map_of (catalog (conn db')) tbl
           = Some \<lparr>rel_columns = df_columns df', rel_rows = df_rows df'\<rparr>"
    if r: "map_of (catalog (conn db)) tbl = Some r"
      and ok: "map_into env func tbl output overwrite db = (Inr u, db')"
  proof -
    from map_into_success [OF r ok] obtain result df' where
      1: "map_rows (call_keywords func) (keyword_rows (arg_names func) r) = Inr result"
      and 2: "set_column output result \<lparr>df_columns = rel_columns r, df_rows = rel_rows r\<rparr> = Inr df'"
      and 3: "catalog (conn db') = drop_relation tbl (catalog (conn db))
            @ [(tbl, \<lparr>rel_columns = df_columns df', rel_rows = df_rows df'\<rparr>)]"
      unfolding keyword_rows_def by blast
    have "map_of (catalog (conn db')) tbl
           = Some \<lparr>rel_columns = df_columns df', rel_rows = df_rows df'\<rparr>"
      unfolding 3 map_of_replaced by simp
    with map_rows_calls [OF 1] 2 show ?thesis by blast
  qed
  from a b keyword_rows_reordered show ?thesis by blast
qed

text \<open>The amended claim C2 on the example database, with the columns of \<open>t\<close> swapped
  for the last part.\<close>

theorem map_into_binds_by_name_witness:
  "code f_id_val = code_of \<lparr>posonlyargs = [], args = [(''id'', None), (''val'', None)],
                       vararg = None, kwonlyargs = [], kwarg = None\<rparr> []
   \<and> arg_names f_id_val = [''id'', ''val'']
   \<and> map_of (catalog (conn db_t)) ''t'' = Some rel_t
   \<and> map_into no_files f_id_val ''t'' ''total'' False db_t = (Inr (), db_total)
   \<and> set (arg_names f_id_val) \<subseteq> set [''val'', ''id'']
   \<and> project [''val'', ''id''] rel_t
       = Inr \<lparr>rel_columns = [''val'', ''id''],
              rel_rows = [[VInt 10, VInt 1], [VInt 20, VInt 2], [VInt 30, VInt 3]]\<rparr>
   \<and> keyword_rows (arg_names f_id_val)
        \<lparr>rel_columns = [''val'', ''id''],
         rel_rows = [[VInt 10, VInt 1], [VInt 20, VInt 2], [VInt 30, VInt 3]]\<rparr>
       = keyword_rows (arg_names f_id_val) rel_t
   \<and> (\<exists>result df'.
         map (call_keywords f_id_val) (keyword_rows (arg_names f_id_val) rel_t) = map Inr result
       \<and> set_column ''total'' result \<lparr>df_columns = rel_columns rel_t, df_rows = rel_rows rel_t\<rparr> = Inr df'
       \<and> map_of (catalog (conn db_total)) ''t''
           = Some \<lparr>rel_columns = df_columns df', rel_rows = df_rows df'\<rparr>)"
proof -
  have a: "code f_id_val = code_of \<lparr>posonlyargs = [], args = [(''id'', None), (''val'', None)],
                       vararg = None, kwonlyargs = [], kwarg = None\<rparr> []"
    by (simp add: f_id_val_def)
  have b: "map_of (catalog (conn db_t)) ''t'' = Some rel_t" by code_simp
  have c: "map_into no_files f_id_val ''t'' ''total'' False db_t = (Inr (), db_total)"
    by code_simp
  have d: "set (arg_names f_id_val) \<subseteq> set [''val'', ''id'']" by code_simp
  have e: "project [''val'', ''id''] rel_t
       = Inr \<lparr>rel_columns = [''val'', ''id''],
              rel_rows = [[VInt 10, VInt 1], [VInt 20, VInt 2], [VInt 30, VInt 3]]\<rparr>"
    by code_simp
  have f: "arg_names f_id_val = [''id'', ''val'']" by code_simp
  note t = map_into_binds_by_name [of f_id_val
      "\<lparr>posonlyargs = [], args = [(''id'', None), (''val'', None)],
                       vararg = None, kwonlyargs = [], kwarg = None\<rparr>" "[]"
      db_t "''t''" rel_t no_files "''total''" False "()" db_total "[''val'', ''id'']"
      "\<lparr>rel_columns = [''val'', ''id''],
              rel_rows = [[VInt 10, VInt 1], [VInt 20, VInt 2], [VInt 30, VInt 3]]\<rparr>"]
  from a b c d e f t show ?thesis by blast
qed

section \<open>The overwrite policy\<close>

text \<open>
  Claim C4 says that every call of \<open>map\<close> or \<open>map_into\<close> with an existing output
  column and \<open>overwrite\<close> false fails with \<open>ColumnExistsError\<close>. In \<open>map_into\<close> the
  binding check comes first: with the function \<open>f(x)\<close>, whose parameter is not a
  column of \<open>t\<close>, and the existing column \<open>val\<close> as output the call fails with
  \<open>UnboundParameterError\<close>.
\<close>

theorem column_exists_counterexample:
  "''val'' \<in> set (rel_columns rel_t)
   \<and> map_of (catalog (conn db_t)) ''t'' = Some rel_t
   \<and> fst (map_into no_files f_x ''t'' ''val'' False db_t) = Inl (UnboundParameterError ''x'' ''t'')
   \<and> fst (map_into no_files f_x ''t'' ''val'' False db_t) \<noteq> Inl (ColumnExistsError ''val'')"
proof -
  have a: "''val'' \<in> set (rel_columns rel_t)" by code_simp
  have b: "map_of (catalog (conn db_t)) ''t'' = Some rel_t" by code_simp
  have c: "fst (map_into no_files f_x ''t'' ''val'' False db_t) = Inl (UnboundParameterError ''x'' ''t'')"
    by code_simp
  from a b c show ?thesis by simp
qed

text \<open>
  What the check of \<open>map\<close> compares the output with are the columns of the result
  of its own query, whichever relation that query has read.
\<close>

lemma map_db_column_exists:
  assumes "query (map_sql tbl) db = (Inr t, db1)" "output \<in> set (tbl_columns t)"
  shows "map_db env func tbl columns output False db = (Inl (ColumnExistsError output), db1)"
  using assms by (simp add: map_db_def to_dataframe_def)

text \<open>
  Claim C4, amended. Let the output name a column of the relation that the
  catalog holds under the table's name, and let \<open>overwrite\<close> be false.
  \<^item> A call of \<open>map\<close> whose query for the whole table succeeds and returns the
    columns and rows of that relation fails with \<open>ColumnExistsError\<close>.
  \<^item> A call of \<open>map_into\<close> in which \<open>column_names\<close> succeeds, every argument name is
    among the names it returns and the query for the bound columns succeeds
    fails with \<open>ColumnExistsError\<close>.
  In both, the catalog and the list of known tables are as before the call, and
  the outcome is the same whatever the function computes, so the function has
  not been called.
\<close>

theorem column_exists_no_overwrite:
  "(map_of (catalog (conn db)) tbl = Some r \<and> output \<in> set (rel_columns r)
      \<and> query (map_sql tbl) db = (Inr (Table (rel_rows r) (rel_columns r)), db1) \<longrightarrow>
      map_db env func tbl columns output False db = (Inl (ColumnExistsError output), db1)
      \<and> catalog (conn db1) = catalog (conn db) \<and> tables db1 = tables db
      \<and> (\<forall>func'. map_db env func' tbl columns output False db
                    = map_db env func tbl columns output False db))
   \<and> (map_of (catalog (conn db)) tbl = Some r \<and> output \<in> set (rel_columns r)
       \<and> fst (column_names tbl db) = Inr cols \<and> set (arg_names func) \<subseteq> set cols
       \<and> query (map_into_sql (arg_names func) tbl) (snd (column_names tbl db)) = (Inr t', db2)
       \<longrightarrow>
      map_into env func tbl output False db = (Inl (ColumnExistsError output), db2)
      \<and> catalog (conn db2) = catalog (conn db) \<and> tables db2 = tables db
      \<and> (\<forall>func'. arg_names func' = arg_names func \<longrightarrow>
             map_into env func' tbl output False db = map_into env func tbl output False db))"
proof -
  have part1: "map_of (catalog (conn db)) tbl = Some r \<and> output \<in> set (rel_columns r)
      \<and> query (map_sql tbl) db = (Inr (Table (rel_rows r) (rel_columns r)), db1) \<longrightarrow>
      map_db env func tbl columns output False db = (Inl (ColumnExistsError output), db1)
      \<and> catalog (conn db1) = catalog (conn db) \<and> tables db1 = tables db
      \<and> (\<forall>func'. map_db env func' tbl columns output False db
                    = map_db env func tbl columns output False db)"
  proof (intro impI, elim conjE)
    assume o: "output \<in> set (rel_columns r)"
      and q: "query (map_sql tbl) db = (Inr (Table (rel_rows r) (rel_columns r)), db1)"
    have o': "output \<in> set (tbl_columns (Table (rel_rows r) (rel_columns r)))"
      using o by (simp add: Table_def)
    have m: "map_db env f tbl columns output False db = (Inl (ColumnExistsError output), db1)"
      for f
      by (rule map_db_column_exists [OF q o'])
    have mc: "catalog (conn db1) = catalog (conn db) \<and> tables db1 = tables db"
      using q query_catalog [of "map_sql tbl" db] query_tables [of "map_sql tbl" db] by simp
    from m mc show "map_db env func tbl columns output False db
        = (Inl (ColumnExistsError output), db1)
      \<and> catalog (conn db1) = catalog (conn db) \<and> tables db1 = tables db
      \<and> (\<forall>func'. map_db env func' tbl columns output False db
                    = map_db env func tbl columns output False db)"
      by simp
  qed
  have part2: "map_of (catalog (conn db)) tbl = Some r \<and> output \<in> set (rel_columns r)
       \<and> fst (column_names tbl db) = Inr cols \<and> set (arg_names func) \<subseteq> set cols
       \<and> query (map_into_sql (arg_names func) tbl) (snd (column_names tbl db)) = (Inr t', db2)
       \<longrightarrow>
      map_into env func tbl output False db = (Inl (ColumnExistsError output), db2)
      \<and> catalog (conn db2) = catalog (conn db) \<and> tables db2 = tables db
      \<and> (\<forall>func'. arg_names func' = arg_names func \<longrightarrow>
             map_into env func' tbl output False db = map_into env func tbl output False db)"
  proof (intro impI, elim conjE)
    assume r: "map_of (catalog (conn db)) tbl = Some r"
      and o: "output \<in> set (rel_columns r)"
      and c: "fst (column_names tbl db) = Inr cols"
      and s: "set (arg_names func) \<subseteq> set cols"
      and q: "query (map_into_sql (arg_names func) tbl) (snd (column_names tbl db)) = (Inr t', db2)"
    from c have cols: "cols = schema db tbl"
      by (auto simp: column_names_eq split: if_splits)
    have ne: "arg_names func \<noteq> []"
    proof
      assume "arg_names func = []"
      with q query_map_into_sql_Nil [of tbl "snd (column_names tbl db)" t'] show False by simp
    qed
    have own: "map lower tbl \<notin> set pragma_columns"
    proof
      assume "map lower tbl \<in> set pragma_columns"
      then have "cols = []" using cols by (simp add: schema_def)
      with s ne show False by simp
    qed
    have o': "output \<in> set cols" using o r own cols by (simp add: schema_def)
    have i: "map_into env f tbl output False db = (Inl (ColumnExistsError output), db2)"
      if "arg_names f = arg_names func" for f
    proof -
      have "find (\<lambda>arg. arg \<notin> set cols) (arg_names f) = None"
        using that s find_missing_None [of "set cols" "arg_names f"] by simp
      with that c q o' show ?thesis
        by (cases "column_names tbl db") (simp add: map_into_def)
    qed
    have ic: "catalog (conn db2) = catalog (conn db) \<and> tables db2 = tables db"
      using q query_catalog [of "map_into_sql (arg_names func) tbl" "snd (column_names tbl db)"]
        query_tables [of "map_into_sql (arg_names func) tbl" "snd (column_names tbl db)"]
        column_names_catalog [of tbl db] column_names_tables [of tbl db]
      by simp
    from i ic show "map_into env func tbl output False db = (Inl (ColumnExistsError output), db2)
      \<and> catalog (conn db2) = catalog (conn db) \<and> tables db2 = tables db
      \<and> (\<forall>func'. arg_names func' = arg_names func \<longrightarrow>
             map_into env func' tbl output False db = map_into env func tbl output False db)"
      by simp
  qed
  from part1 part2 show ?thesis by (rule conjI)
qed

text \<open>The amended claim C4 on the example database, for both methods.\<close>

theorem column_exists_no_overwrite_witness:
  "map_of (catalog (conn db_t)) ''t'' = Some rel_t
   \<and> ''val'' \<in> set (rel_columns rel_t)
   \<and> query (map_sql ''t'') db_t
     = (Inr (Table (rel_rows rel_t) (rel_columns rel_t)), logged (Execute (map_sql ''t'')) db_t)
   \<and> map_db no_files f_id_val ''t'' [''id''] ''val'' False db_t
       = (Inl (ColumnExistsError ''val''), logged (Execute (map_sql ''t'')) db_t)
   \<and> fst (column_names ''t'' db_t) = Inr [''id'', ''val'']
   \<and> set (arg_names f_id_val) \<subseteq> set [''id'', ''val'']
   \<and> fst (query (map_into_sql (arg_names f_id_val) ''t'') (snd (column_names ''t'' db_t)))
       = Inr (Table (rel_rows rel_t) (rel_columns rel_t))
   \<and> fst (map_into no_files f_id_val ''t'' ''val'' False db_t) = Inl (ColumnExistsError ''val'')
   \<and> catalog (conn (snd (map_into no_files f_id_val ''t'' ''val'' False db_t)))
       = catalog (conn db_t)"
proof -
  let ?t = "Table (rel_rows rel_t) (rel_columns rel_t)"
  let ?db2 = "snd (query (map_into_sql (arg_names f_id_val) ''t'') (snd (column_names ''t'' db_t)))"
  have r: "map_of (catalog (conn db_t)) ''t'' = Some rel_t" by code_simp
  have a: "query (map_sql ''t'') db_t = (Inr ?t, logged (Execute (map_sql ''t'')) db_t)"
    by code_simp
  have b: "''val'' \<in> set (rel_columns rel_t)" by code_simp
  have c: "fst (column_names ''t'' db_t) = Inr [''id'', ''val'']" by code_simp
  have d: "set (arg_names f_id_val) \<subseteq> set [''id'', ''val'']" by code_simp
  have e: "fst (query (map_into_sql (arg_names f_id_val) ''t'') (snd (column_names ''t'' db_t)))
           = Inr ?t"
    by code_simp
  then have e': "query (map_into_sql (arg_names f_id_val) ''t'') (snd (column_names ''t'' db_t))
           = (Inr ?t, ?db2)"
    by (simp add: prod_eq_iff)
  note t = column_exists_no_overwrite [of db_t "''t''" rel_t "''val''"
      "logged (Execute (map_sql ''t'')) db_t" no_files f_id_val "[''id'']"
      "[''id'', ''val'']" ?t ?db2]
  from r a b c d e e' t show ?thesis by simp
qed

section \<open>The end-to-end scenario\<close>

text \<open>
  Claim C1. The source with \<open>id\<close> = 1, 2, 3 and \<open>val\<close> = 10, 20, 30 is ingested as
  \<open>t\<close>; \<open>map_into\<close> with \<open>f(id, val) = id * val\<close> and output \<open>total\<close> succeeds;
  afterwards a query for \<open>t\<close> returns the rows (1, 10, 10), (2, 20, 40),
  (3, 30, 90) and \<open>column_names\<close> lists \<open>id\<close>, \<open>val\<close> and, last, \<open>total\<close>.
\<close>

theorem map_into_end_to_end:
  "add_table no_files (Frame id_val_frame) ''t'' ''fail'' (Database ''example'') = (Inr (), db_t)
   \<and> map_into no_files f_id_val ''t'' ''total'' False db_t = (Inr (), db_total)
   \<and> fst (query ''SELECT * FROM t'' db_total)
       = Inr (Table [[VInt 1, VInt 10, VInt 10], [VInt 2, VInt 20, VInt 40],
                     [VInt 3, VInt 30, VInt 90]] [''id'', ''val'', ''total''])
   \<and> fst (column_names ''t'' db_total) = Inr [''id'', ''val'', ''total'']"
  by code_simp

section \<open>\<open>map\<close>: a successful call\<close>

lemma index_of_append:
  "c \<in> set xs \<Longrightarrow> index_of c (xs @ ys) = index_of c xs"
  by (induction xs) (auto simp: index_of_def)

lemma index_of_inject:
  "c \<in> set xs \<Longrightarrow> index_of c xs = index_of d xs \<Longrightarrow> c = d \<or> d \<notin> set xs"
  using index_of_member [of c xs] index_of_member [of d xs] by metis

lemma set_column_keeps:
  assumes sc: "set_column output result df = Inr df'"
  shows "filter (\<lambda>c. c \<noteq> output) (df_columns df') = filter (\<lambda>c. c \<noteq> output) (df_columns df)"
    and "length (df_rows df') = length (df_rows df)"
    and "i < length (df_rows df) \<Longrightarrow> length (df_rows df ! i) = length (df_columns df) \<Longrightarrow>
         c \<in> set (df_columns df) \<Longrightarrow> c \<noteq> output \<Longrightarrow>
         cell (df_rows df' ! i) (index_of c (df_columns df'))
         = cell (df_rows df ! i) (index_of c (df_columns df))"
proof -
  from sc have len: "length result = length (df_rows df)"
    by (auto simp: set_column_def split: if_splits)
  show "filter (\<lambda>c. c \<noteq> output) (df_columns df') = filter (\<lambda>c. c \<noteq> output) (df_columns df)"
    using sc by (auto simp: set_column_def split: if_splits)
  show "length (df_rows df') = length (df_rows df)"
    using sc len by (auto simp: set_column_def split: if_splits)
  show "cell (df_rows df' ! i) (index_of c (df_columns df'))
         = cell (df_rows df ! i) (index_of c (df_columns df))"
    if i: "i < length (df_rows df)" and rect: "length (df_rows df ! i) = length (df_columns df)"
      and c: "c \<in> set (df_columns df)" and ne: "c \<noteq> output"
  proof (cases "output \<in> set (df_columns df)")
    case True
    with sc have df': "df' = \<lparr>df_columns = df_columns df,
                df_rows = map (\<lambda>(row, v). row[index_of output (df_columns df) := v])
                            (zip (df_rows df) result)\<rparr>"
      by (auto simp: set_column_def split: if_splits)
    have "index_of c (df_columns df) \<noteq> index_of output (df_columns df)"
      using index_of_inject [OF c] True ne by blast
    then show ?thesis using i len by (simp add: df' cell_def)
  next
    case False
    with sc have df': "df' = \<lparr>df_columns = df_columns df @ [output],
                df_rows = map (\<lambda>(row, v). row @ [v]) (zip (df_rows df) result)\<rparr>"
      by (auto simp: set_column_def split: if_splits)
    have "index_of c (df_columns df) < length (df_rows df ! i)"
      using index_of_member [OF c] rect by simp
    then show ?thesis using i len c by (simp add: df' cell_def index_of_append nth_append)
  qed
qed

text \<open>
  When the statement of \<open>map\<close> has read the relation \<open>r\<close> and the call succeeds,
  the relation left under the table's name has the columns of \<open>r\<close> other than the
  output under the same names and in the same order, as many rows, and in
  every row of full length the same cells under these columns.
\<close>

lemma map_db_keeps_other_columns:
  assumes q: "query (map_sql tbl) db = (Inr (Table (rel_rows r) (rel_columns r)), db1)"
    and ok: "map_db env func tbl columns output overwrite db = (Inr u, db')"
  shows "\<exists>r'. map_of (catalog (conn db')) tbl = Some r'
    \<and> filter (\<lambda>c. c \<noteq> output) (rel_columns r') = filter (\<lambda>c. c \<noteq> output) (rel_columns r)
    \<and> length (rel_rows r') = length (rel_rows r)
    \<and> (\<forall>i < length (rel_rows r). \<forall>c \<in> set (rel_columns r).
          length (rel_rows r ! i) = length (rel_columns r) \<longrightarrow> c \<noteq> output \<longrightarrow>
          cell (rel_rows r' ! i) (index_of c (rel_columns r'))
          = cell (rel_rows r ! i) (index_of c (rel_columns r)))"
proof -
  let ?df = "\<lparr>df_columns = rel_columns r, df_rows = rel_rows r\<rparr>"
  have fr: "to_dataframe (Table (rel_rows r) (rel_columns r)) = ?df"
    by (simp add: to_dataframe_def Table_def)
  from ok q fr obtain result df' where
    sc: "set_column output result ?df = Inr df'"
    and at: "add_table env (Frame df') tbl ''replace'' db1 = (Inr u, db')"
    by (auto simp: map_db_def Let_def split: if_splits sum.splits)
  let ?r' = "\<lparr>rel_columns = df_columns df', rel_rows = df_rows df'\<rparr>"
  have "map_of (catalog (conn db')) tbl = Some ?r'"
    unfolding add_table_frame_replace [OF at] map_of_replaced by simp
  moreover note set_column_keeps [OF sc]
  ultimately show ?thesis by (intro exI [of _ ?r']) simp
qed

section \<open>Table names that need quoting\<close>

text \<open>
  Claim C8 at the table name \<open>my table\<close>. \<open>map\<close> puts the name into its statement
  as it is, not through \<open>escape_sqlite_ident\<close>, and the engine rejects the
  statement; \<open>map_into\<close> and \<open>column_names\<close>, which quote the name, succeed on the
  same table.
\<close>

theorem map_interpolates_raw_table_name:
  "add_table no_files (Frame id_val_frame) ''my table'' ''fail'' (Database ''example'')
     = (Inr (), db_my_table)
   \<and> map_sql ''my table'' = ''SELECT * FROM my table''
   \<and> map_sql ''my table'' \<noteq> ''SELECT * FROM '' @ escape_sqlite_ident ''my table''
   \<and> fst (map_db no_files f_id_val ''my table'' [''id'', ''val''] ''total'' False db_my_table)
       = Inl (EngineError ''syntax error'')
   \<and> fst (map_into no_files f_id_val ''my table'' ''total'' False db_my_table) = Inr ()
   \<and> fst (column_names ''my table'' db_my_table) = Inr [''id'', ''val'']"
  by code_simp

text \<open>
  Claim C10 at a table whose name is \<open>a\<close> between double quotes, beside a table
  \<open>a\<close>. The statement that \<open>map\<close> builds from the unquoted name reads the table
  \<open>a\<close>; the call succeeds and replaces the table it was given by the columns of
  \<open>a\<close> and the output: the column \<open>y\<close> of the table is gone.
\<close>

theorem map_reads_another_relation:
  "map_of (catalog (conn db_two)) quoted_a
     = Some \<lparr>rel_columns = [''y''], rel_rows = [[VInt 7], [VInt 8]]\<rparr>
   \<and> fst (map_db no_files f_x quoted_a [''x''] ''out'' False db_two) = Inr ()
   \<and> map_of (catalog (conn (snd (map_db no_files f_x quoted_a [''x''] ''out'' False db_two))))
       quoted_a
     = Some \<lparr>rel_columns = [''x'', ''out''], rel_rows = [[VInt 1, VInt 1], [VInt 2, VInt 2]]\<rparr>"
  by code_simp

end
